theory Spec2Isabelle
  imports Main
begin

section \<open>The statement base class (deirokay/statements/base_statement.py)\<close>

subsection \<open>Data\<close>

text \<open>
  A Python \<^verbatim>\<open>dict\<close> with string keys is an association list in insertion order: the
  comprehension of \<^verbatim>\<open>_validate_options\<close> walks the keys in that order and the error
  message prints them in that order. The values of the options are arbitrary Python
  objects (type variable \<open>'v\<close>); the data frame a statement receives is \<open>'df\<close>.
\<close>

type_synonym 'v dict = "(string \<times> 'v) list"

definition keys :: "'v dict \<Rightarrow> string list" where
  "keys d = map fst d"

text \<open>
  The message of the \<^verbatim>\<open>ValueError\<close> is an f-string. It is kept as the sequence of its
  pieces: literal text, an interpolated string (\<^verbatim>\<open>{cls.__name__}\<close>) and an
  interpolated list of strings, which Python prints by \<^verbatim>\<open>repr\<close>.
\<close>

datatype fragment = Lit string | Name string | ListRepr "string list"

datatype error = ValueError "fragment list" | NotImplementedError

text \<open>
  An instance has one attribute, \<^verbatim>\<open>options\<close>, which exists only once \<^verbatim>\<open>__init__\<close> has
  assigned it: \<open>None\<close> is the attribute not being set.
\<close>

record 'v statement =
  options :: "'v dict option"

definition new_instance :: "'v statement" where
  "new_instance = \<lparr>options = None\<rparr>"

text \<open>
  A statement type (a class) is the record of its class attributes and of its methods;
  every method but the static \<^verbatim>\<open>profile\<close> takes \<^verbatim>\<open>self\<close> first. A subclass is a record
  that overrides some fields of its base and keeps (inherits) the others. The two
  hooks \<^verbatim>\<open>report\<close> and \<^verbatim>\<open>result\<close> are functions of their arguments, as the base class
  writes them (\<^verbatim>\<open>return {}\<close>, \<^verbatim>\<open>return True\<close>): they return a value and assign nothing.
  The entries of the final report are tagged by what they hold.
\<close>

record ('v, 'df, 'rep) statement_class =
  cls_name :: string
  name :: string
  expected_parameters :: "string list"
  table_only :: bool
  report :: "'v statement \<Rightarrow> 'df \<Rightarrow> 'rep"
  result :: "'v statement \<Rightarrow> 'rep \<Rightarrow> bool"
  profile :: "'df \<Rightarrow> error + 'v dict"

datatype 'rep entry = Detail 'rep | Verdict bool

subsection \<open>Class attributes and methods of \<^verbatim>\<open>BaseStatement\<close>\<close>

definition BaseStatement_expected_parameters :: "string list" where
  "BaseStatement_expected_parameters = [''type'', ''severity'', ''location'']"

definition BaseStatement :: "('v, 'df, 'm dict) statement_class" where
  "BaseStatement =
     \<lparr>cls_name = ''BaseStatement'',
      name = ''base_statement'',
      expected_parameters = BaseStatement_expected_parameters,
      table_only = False,
      report = (\<lambda>self df. []),
      result = (\<lambda>self report. True),
      profile = (\<lambda>df. Inl NotImplementedError)\<rparr>"

text \<open>
  \<^verbatim>\<open>_validate_options\<close>: the keys of \<^verbatim>\<open>options\<close> that are neither in the class's own list
  nor in the base class's list, in the order of the mapping; a non-empty list raises.
\<close>

definition validate_options ::
  "('v, 'df, 'rep) statement_class \<Rightarrow> 'v dict \<Rightarrow> error + unit" where
  "validate_options cls opts =
     (let unexpected_parameters =
            [option \<leftarrow> keys opts.
               option \<notin> set (expected_parameters cls @ BaseStatement_expected_parameters)]
      in if unexpected_parameters \<noteq> []
         then Inl (ValueError
                [Lit ''Invalid parameters passed to '', Name (cls_name cls),
                 Lit '' statement: '', ListRepr unexpected_parameters,
                 Lit (CHR 0x0A # ''The valid parameters are: ''),
                 ListRepr (expected_parameters cls)])
         else Inr ())"

text \<open>
  \<^verbatim>\<open>__init__\<close> runs on a fresh object: it validates first and assigns \<^verbatim>\<open>self.options\<close>
  after. The object is returned next to the outcome, so that what a raise leaves
  behind is visible.
\<close>

definition init ::
  "('v, 'df, 'rep) statement_class \<Rightarrow> 'v statement \<Rightarrow> 'v dict \<Rightarrow> (error + unit) \<times> 'v statement" where
  "init cls self opts =
     (case validate_options cls opts of
        Inl e \<Rightarrow> (Inl e, self)
      | Inr _ \<Rightarrow> (Inr (), self\<lparr>options := Some opts\<rparr>))"

text \<open>The call \<^verbatim>\<open>cls(options)\<close>: a new object, initialised, or the error raised.\<close>

definition construct ::
  "('v, 'df, 'rep) statement_class \<Rightarrow> 'v dict \<Rightarrow> error + 'v statement" where
  "construct cls opts =
     (case init cls new_instance opts of
        (Inl e, _) \<Rightarrow> Inl e
      | (Inr _, self) \<Rightarrow> Inr self)"

text \<open>
  \<^verbatim>\<open>__call__\<close>: report, then result from the report, then the two-entry mapping. The
  method assigns no attribute, so the instance comes back as it went in.
\<close>

definition call ::
  "('v, 'df, 'rep) statement_class \<Rightarrow> 'v statement \<Rightarrow> 'df \<Rightarrow> 'rep entry dict \<times> 'v statement" where
  "call cls self df =
     (let internal_report = report cls self df;
          result = result cls self internal_report;
          final_report = [(''detail'', Detail internal_report), (''result'', Verdict result)]
      in (final_report, self))"

text \<open>
  Nothing keeps a subclass from overriding \<^verbatim>\<open>report\<close> or \<^verbatim>\<open>result\<close> with a method that
  assigns to \<^verbatim>\<open>self\<close>. Such a hook returns, next to its value, the instance as it leaves
  it (an instance may carry further attributes than \<^verbatim>\<open>options\<close>). \<^verbatim>\<open>__call__\<close> over such
  hooks hands \<^verbatim>\<open>result\<close> the instance that \<^verbatim>\<open>report\<close> left and returns the one that
  \<^verbatim>\<open>result\<close> left; \<open>call\<close> is the case of hooks that assign nothing.
\<close>

definition call_assigning ::
  "(('v, 'x) statement_scheme \<Rightarrow> 'df \<Rightarrow> 'rep \<times> ('v, 'x) statement_scheme)
     \<Rightarrow> (('v, 'x) statement_scheme \<Rightarrow> 'rep \<Rightarrow> bool \<times> ('v, 'x) statement_scheme)
     \<Rightarrow> ('v, 'x) statement_scheme \<Rightarrow> 'df
     \<Rightarrow> 'rep entry dict \<times> ('v, 'x) statement_scheme" where
  "call_assigning report_method result_method self df =
     (let (internal_report, self) = report_method self df;
          (result, self) = result_method self internal_report;
          final_report = [(''detail'', Detail internal_report), (''result'', Verdict result)]
      in (final_report, self))"

section \<open>The pipeline operator (deirokay/airflow/deirokay_operator.py)\<close>

text \<open>
  \<^verbatim>\<open>DeirokayOperator\<close> extends Airflow's \<^verbatim>\<open>BaseOperator\<close>, a class of another library:
  what \<^verbatim>\<open>super().__init__(**kwargs)\<close> sets up is the field \<open>base_operator\<close>, built by
  a parameter \<open>super_init\<close> that may raise. The three assignments of \<^verbatim>\<open>__init__\<close> are
  the other fields; \<^verbatim>\<open>save_json\<close> (\<open>None\<close> by default) is a parameter of \<^verbatim>\<open>__init__\<close>
  that its body never reads.
\<close>

record 'b DeirokayOperator =
  base_operator :: 'b
  path_to_file :: string
  deirokay_options_json :: string
  deirokay_assertions_json :: string

definition ui_color :: string where
  "ui_color = ''#1d3e63''"

definition DeirokayOperator_init ::
  "('kw \<Rightarrow> 'e + 'b) \<Rightarrow> string \<Rightarrow> string \<Rightarrow> string \<Rightarrow> string option \<Rightarrow> 'kw
     \<Rightarrow> 'e + 'b DeirokayOperator" where
  "DeirokayOperator_init super_init path deirokay_options deirokay_assertions save_json kwargs =
     (case super_init kwargs of
        Inl e \<Rightarrow> Inl e
      | Inr b \<Rightarrow>
          Inr \<lparr>base_operator = b,
               path_to_file = path,
               deirokay_options_json = deirokay_options,
               deirokay_assertions_json = deirokay_assertions\<rparr>)"

text \<open>
  \<^verbatim>\<open>execute\<close> calls \<^verbatim>\<open>deirokay.data_reader\<close> and \<^verbatim>\<open>deirokay.validate\<close>, whose code is not
  part of the sources at hand: they are parameters, each returning a value or the
  exception it raises, which \<^verbatim>\<open>execute\<close> lets through. What \<^verbatim>\<open>validate\<close> returns is
  dropped.
\<close>

definition execute ::
  "(string \<Rightarrow> string \<Rightarrow> 'e + 'df) \<Rightarrow> ('df \<Rightarrow> string \<Rightarrow> 'e + 'r) \<Rightarrow> 'b DeirokayOperator \<Rightarrow> 'c
     \<Rightarrow> 'e + string" where
  "execute data_reader validate self context =
     (case data_reader (path_to_file self) (deirokay_options_json self) of
        Inl e \<Rightarrow> Inl e
      | Inr df \<Rightarrow>
          (case validate df (deirokay_assertions_json self) of
             Inl e \<Rightarrow> Inl e
           | Inr _ \<Rightarrow> Inr (path_to_file self)))"

section \<open>Properties of the statement base class\<close>

lemma call_final_report:
  "fst (call cls self df) =
     [(''detail'', Detail (report cls self df)),
      (''result'', Verdict (result cls self (report cls self df)))]"
  by (simp add: call_def Let_def)

lemma call_leaves_instance: "snd (call cls self df) = self"
  by (simp add: call_def Let_def)

subsection \<open>Option validation\<close>

lemma unexpected_parameters_set:
  "set [option \<leftarrow> keys opts.
          option \<notin> set (expected_parameters cls @ BaseStatement_expected_parameters)] =
   set (keys opts) - (set (expected_parameters cls) \<union> {''type'', ''severity'', ''location''})"
  by (auto simp: BaseStatement_expected_parameters_def)

lemma validate_options_accepts:
  "(validate_options cls opts = Inr ()) =
   (set (keys opts) \<subseteq> set (expected_parameters cls) \<union> {''type'', ''severity'', ''location''})"
proof -
  have "(validate_options cls opts = Inr ()) =
        ([option \<leftarrow> keys opts.
            option \<notin> set (expected_parameters cls @ BaseStatement_expected_parameters)] = [])"
    by (simp add: validate_options_def Let_def)
  also have "\<dots> = (set [option \<leftarrow> keys opts.
            option \<notin> set (expected_parameters cls @ BaseStatement_expected_parameters)] = {})"
    by (simp only: set_empty)
  also have "\<dots> = (set (keys opts) \<subseteq>
        set (expected_parameters cls) \<union> {''type'', ''severity'', ''location''})"
    unfolding unexpected_parameters_set by blast
  finally show ?thesis .
qed

lemma validate_options_message:
  assumes "validate_options cls opts = Inl e"
  shows "\<exists>unexpected.
           e = ValueError
                 [Lit ''Invalid parameters passed to '', Name (cls_name cls),
                  Lit '' statement: '', ListRepr unexpected,
                  Lit (CHR 0x0A # ''The valid parameters are: ''),
                  ListRepr (expected_parameters cls)] \<and>
           unexpected \<noteq> [] \<and>
           unexpected = [option \<leftarrow> keys opts.
              option \<notin> set (expected_parameters cls) \<union> {''type'', ''severity'', ''location''}]"
  using assms
  by (auto simp: validate_options_def Let_def BaseStatement_expected_parameters_def
           split: if_splits)

lemma validate_options_cases:
  "validate_options cls opts = Inr () \<or> (\<exists>msg. validate_options cls opts = Inl (ValueError msg))"
  by (simp add: validate_options_def Let_def)

lemma construct_eq:
  "construct cls opts =
     (case validate_options cls opts of Inl e \<Rightarrow> Inl e | Inr _ \<Rightarrow> Inr \<lparr>options = Some opts\<rparr>)"
  by (simp add: construct_def init_def new_instance_def split: sum.splits)

text \<open>
  C1. For every statement type and every options mapping, construction succeeds
  exactly when every key of the mapping is one of the type's own expected parameters or
  one of the base names \<^verbatim>\<open>type\<close>, \<^verbatim>\<open>severity\<close>, \<^verbatim>\<open>location\<close>; otherwise it raises. The
  configuration error of the specification is the \<^verbatim>\<open>ValueError\<close> that
  \<^verbatim>\<open>_validate_options\<close> raises.
\<close>

theorem construction_succeeds_iff_keys_accepted:
  "(\<exists>self. construct cls opts = Inr self) =
     (set (keys opts) \<subseteq> set (expected_parameters cls) \<union> {''type'', ''severity'', ''location''}) \<and>
   (\<exists>msg. construct cls opts = Inl (ValueError msg)) =
     (\<not> set (keys opts) \<subseteq> set (expected_parameters cls) \<union> {''type'', ''severity'', ''location''})"
proof -
  let ?ok = "set (keys opts) \<subseteq> set (expected_parameters cls) \<union> {''type'', ''severity'', ''location''}"
  show ?thesis
  proof (cases ?ok)
    case True
    then have "validate_options cls opts = Inr ()"
      by (simp add: validate_options_accepts)
    then have "construct cls opts = Inr \<lparr>options = Some opts\<rparr>"
      by (simp add: construct_eq)
    with True show ?thesis by simp
  next
    case False
    then have "validate_options cls opts \<noteq> Inr ()"
      by (simp add: validate_options_accepts)
    with validate_options_cases [of cls opts]
    obtain msg where "validate_options cls opts = Inl (ValueError msg)" by blast
    then have "construct cls opts = Inl (ValueError msg)"
      by (simp add: construct_eq)
    with False show ?thesis by simp
  qed
qed

text \<open>Both sides occur: a base statement built from recognised keys, and one with a stray key.\<close>

theorem construction_succeeds_iff_keys_accepted_witness:
  "(\<exists>self. construct (BaseStatement :: (nat, unit, nat dict) statement_class)
             [(''type'', 0), (''severity'', 3)] = Inr self) \<and>
   (\<exists>msg. construct (BaseStatement :: (nat, unit, nat dict) statement_class)
             [(''type'', 0), (''colour'', 1)] = Inl (ValueError msg))"
  using construction_succeeds_iff_keys_accepted
          [of "BaseStatement :: (nat, unit, nat dict) statement_class"
              "[(''type'', 0), (''severity'', 3)]"]
        construction_succeeds_iff_keys_accepted
          [of "BaseStatement :: (nat, unit, nat dict) statement_class"
              "[(''type'', 0), (''colour'', 1)]"]
  by (simp add: keys_def BaseStatement_def BaseStatement_expected_parameters_def)

text \<open>
  C2. The error names exactly the unrecognised keys (lemma \<open>validate_options_message\<close>),
  but the list it prints after \<^verbatim>\<open>The valid parameters are:\<close> is the class's own
  \<^verbatim>\<open>expected_parameters\<close>, not the set the check accepts. For a subclass \<^verbatim>\<open>Unique\<close> that
  declares \<^verbatim>\<open>['at_least_%']\<close>, the options \<^verbatim>\<open>{'type': 0, 'at_least': 1}\<close> raise a message
  that lists \<^verbatim>\<open>['at_least_%']\<close> alone, although \<^verbatim>\<open>type\<close>, \<^verbatim>\<open>severity\<close> and \<^verbatim>\<open>location\<close>
  are accepted as well.
\<close>

theorem message_omits_base_parameters:
  "validate_options
     ((BaseStatement :: (nat, unit, nat dict) statement_class)
        \<lparr>cls_name := ''Unique'', expected_parameters := [''at_least_%'']\<rparr>)
     [(''type'', 0), (''at_least'', 1)] =
   Inl (ValueError
          [Lit ''Invalid parameters passed to '', Name ''Unique'',
           Lit '' statement: '', ListRepr [''at_least''],
           Lit (CHR 0x0A # ''The valid parameters are: ''),
           ListRepr [''at_least_%'']]) \<and>
   validate_options
     ((BaseStatement :: (nat, unit, nat dict) statement_class)
        \<lparr>cls_name := ''Unique'', expected_parameters := [''at_least_%'']\<rparr>)
     [(''type'', 0), (''severity'', 1), (''location'', 2), (''at_least_%'', 3)] = Inr ()"
  by (simp add: validate_options_def keys_def Let_def BaseStatement_def
        BaseStatement_expected_parameters_def)

subsection \<open>Evaluation\<close>

text \<open>
  C3. For every statement and every slice, \<^verbatim>\<open>__call__\<close> returns a mapping whose keys
  are exactly \<^verbatim>\<open>detail\<close> and \<^verbatim>\<open>result\<close>: \<^verbatim>\<open>detail\<close> holds what \<^verbatim>\<open>report\<close> returned on the
  slice, \<^verbatim>\<open>result\<close> the boolean that \<^verbatim>\<open>result\<close> returned on that report.
\<close>

theorem evaluate_returns_detail_and_result:
  "keys (fst (call cls self df)) = [''detail'', ''result''] \<and>
   map_of (fst (call cls self df)) ''detail'' = Some (Detail (report cls self df)) \<and>
   map_of (fst (call cls self df)) ''result'' =
     Some (Verdict (result cls self (report cls self df)))"
  by (simp add: call_final_report keys_def)

text \<open>
  C4. The verdict comes from the report alone: two evaluations of a statement whose
  reports are equal have equal results, whatever the two slices are.
\<close>

theorem verdict_from_report_alone:
  assumes "report cls self df1 = report cls self df2"
  shows "map_of (fst (call cls self df1)) ''result'' =
         map_of (fst (call cls self df2)) ''result''"
  using assms by (simp add: call_final_report)

text \<open>
  A subclass that reports the number of rows and passes on two rows: the slices
  \<open>[1, 2]\<close> and \<open>[3, 4]\<close> differ, their reports and verdicts do not.
\<close>

theorem verdict_from_report_alone_witness:
  "report ((BaseStatement :: (nat, nat list, nat dict) statement_class)
             \<lparr>report := (\<lambda>self df. [(''rows'', length df)]),
              result := (\<lambda>self report. map_of report ''rows'' = Some 2)\<rparr>)
          \<lparr>options = Some []\<rparr> [1, 2] =
   report ((BaseStatement :: (nat, nat list, nat dict) statement_class)
             \<lparr>report := (\<lambda>self df. [(''rows'', length df)]),
              result := (\<lambda>self report. map_of report ''rows'' = Some 2)\<rparr>)
          \<lparr>options = Some []\<rparr> [3, 4] \<and>
   map_of (fst (call ((BaseStatement :: (nat, nat list, nat dict) statement_class)
             \<lparr>report := (\<lambda>self df. [(''rows'', length df)]),
              result := (\<lambda>self report. map_of report ''rows'' = Some 2)\<rparr>)
          \<lparr>options = Some []\<rparr> [1, 2])) ''result'' = Some (Verdict True) \<and>
   map_of (fst (call ((BaseStatement :: (nat, nat list, nat dict) statement_class)
             \<lparr>report := (\<lambda>self df. [(''rows'', length df)]),
              result := (\<lambda>self report. map_of report ''rows'' = Some 2)\<rparr>)
          \<lparr>options = Some []\<rparr> [3, 4])) ''result'' = Some (Verdict True)"
proof -
  let ?cls = "(BaseStatement :: (nat, nat list, nat dict) statement_class)
             \<lparr>report := (\<lambda>self df. [(''rows'', length df)]),
              result := (\<lambda>self report. map_of report ''rows'' = Some 2)\<rparr>"
  let ?self = "\<lparr>options = Some ([] :: nat dict)\<rparr>"
  have same: "report ?cls ?self [1, 2] = report ?cls ?self [3, 4]"
    by simp
  have first: "map_of (fst (call ?cls ?self [1, 2])) ''result'' = Some (Verdict True)"
    by (simp add: call_def Let_def)
  from verdict_from_report_alone [OF same] first
  have "map_of (fst (call ?cls ?self [3, 4])) ''result'' = Some (Verdict True)"
    by simp
  with same first show ?thesis by blast
qed

subsection \<open>Profiling\<close>

text \<open>
  C5. \<^verbatim>\<open>BaseStatement.profile\<close> raises \<^verbatim>\<open>NotImplementedError\<close> on every sample, and so
  does \<^verbatim>\<open>profile\<close> of every statement type that does not override it (whose \<^verbatim>\<open>profile\<close>
  is the inherited one).
\<close>

theorem profile_not_implemented:
  "profile BaseStatement df = Inl NotImplementedError \<and>
   (profile cls = profile BaseStatement \<longrightarrow> profile cls df = Inl NotImplementedError)"
  by (simp add: BaseStatement_def)

text \<open>A subclass that overrides the class name and the expected parameters only.\<close>

theorem profile_not_implemented_witness:
  "profile ((BaseStatement :: (nat, nat list, nat dict) statement_class)
              \<lparr>cls_name := ''Unique'', expected_parameters := [''at_least_%'']\<rparr>) =
     profile (BaseStatement :: (nat, nat list, nat dict) statement_class) \<and>
   profile ((BaseStatement :: (nat, nat list, nat dict) statement_class)
              \<lparr>cls_name := ''Unique'', expected_parameters := [''at_least_%'']\<rparr>) [1, 2] =
     Inl NotImplementedError"
proof -
  let ?cls = "(BaseStatement :: (nat, nat list, nat dict) statement_class)
              \<lparr>cls_name := ''Unique'', expected_parameters := [''at_least_%'']\<rparr>"
  have inherited: "profile ?cls = profile (BaseStatement :: (nat, nat list, nat dict) statement_class)"
    by simp
  from profile_not_implemented [of "[1, 2]" ?cls] inherited
  have "profile ?cls [1, 2] = Inl NotImplementedError"
    by blast
  with inherited show ?thesis by blast
qed


subsection \<open>Missing options\<close>

lemma validate_options_drop_key:
  assumes "validate_options cls opts = Inr ()"
  shows "validate_options cls [kv \<leftarrow> opts. fst kv \<noteq> k] = Inr ()"
proof -
  have "set (keys [kv \<leftarrow> opts. fst kv \<noteq> k]) \<subseteq> set (keys opts)"
    by (auto simp: keys_def)
  with assms show ?thesis
    unfolding validate_options_accepts by blast
qed

text \<open>
  C6, amended. Construction looks for unrecognised keys only; an option that is
  missing is not detected there. For every statement type the empty mapping constructs,
  and taking a key out of a mapping that constructs leaves a mapping that constructs
  (and is stored as it is).
\<close>

theorem missing_option_is_accepted:
  "construct cls [] = Inr \<lparr>options = Some []\<rparr> \<and>
   (construct cls opts = Inr self \<longrightarrow>
      construct cls [kv \<leftarrow> opts. fst kv \<noteq> k] =
        Inr \<lparr>options = Some [kv \<leftarrow> opts. fst kv \<noteq> k]\<rparr>)"
proof -
  have empty: "construct cls [] = Inr \<lparr>options = Some []\<rparr>"
    by (simp add: construct_eq validate_options_def keys_def)
  have drop: "construct cls [kv \<leftarrow> opts. fst kv \<noteq> k] =
        Inr \<lparr>options = Some [kv \<leftarrow> opts. fst kv \<noteq> k]\<rparr>"
    if "construct cls opts = Inr self"
  proof -
    from that have "validate_options cls opts = Inr ()"
      by (simp add: construct_eq split: sum.splits)
    then have "validate_options cls [kv \<leftarrow> opts. fst kv \<noteq> k] = Inr ()"
      by (rule validate_options_drop_key)
    then show ?thesis by (simp add: construct_eq)
  qed
  from empty drop show ?thesis by blast
qed

text \<open>\<^verbatim>\<open>Unique\<close> constructs with its parameter \<^verbatim>\<open>at_least_%\<close>, and without it.\<close>

theorem missing_option_is_accepted_witness:
  "construct ((BaseStatement :: (nat, unit, nat dict) statement_class)
                \<lparr>cls_name := ''Unique'', expected_parameters := [''at_least_%'']\<rparr>)
     [(''type'', 0), (''at_least_%'', 95)] =
     Inr \<lparr>options = Some [(''type'', 0), (''at_least_%'', 95)]\<rparr> \<and>
   construct ((BaseStatement :: (nat, unit, nat dict) statement_class)
                \<lparr>cls_name := ''Unique'', expected_parameters := [''at_least_%'']\<rparr>)
     [(''type'', 0)] = Inr \<lparr>options = Some [(''type'', 0)]\<rparr>"
proof -
  let ?cls = "(BaseStatement :: (nat, unit, nat dict) statement_class)
                \<lparr>cls_name := ''Unique'', expected_parameters := [''at_least_%'']\<rparr>"
  have full: "construct ?cls [(''type'', 0), (''at_least_%'', 95)] =
     Inr \<lparr>options = Some [(''type'', 0), (''at_least_%'', 95)]\<rparr>"
    by (simp add: construct_eq validate_options_def keys_def Let_def
          BaseStatement_expected_parameters_def)
  from missing_option_is_accepted
         [of ?cls "[(''type'', 0), (''at_least_%'', 95)]"
             "\<lparr>options = Some [(''type'', 0), (''at_least_%'', 95)]\<rparr>" "''at_least_%''"]
       full
  have "construct ?cls [(''type'', 0)] = Inr \<lparr>options = Some [(''type'', 0)]\<rparr>"
    by simp
  with full show ?thesis by blast
qed

text \<open>
  As the specification words it, the sentence fails: \<^verbatim>\<open>Unique\<close> declares \<^verbatim>\<open>at_least_%\<close>,
  the options \<^verbatim>\<open>{'type': 0}\<close> lack it, and construction succeeds.
\<close>

theorem missing_option_fails_counterexample:
  "\<not> (\<forall>(cls :: (nat, unit, nat dict) statement_class) opts k.
         k \<in> set (expected_parameters cls) \<and> k \<notin> set (keys opts) \<longrightarrow>
         (\<exists>e. construct cls opts = Inl e))"
proof
  assume claim: "\<forall>(cls :: (nat, unit, nat dict) statement_class) opts k.
         k \<in> set (expected_parameters cls) \<and> k \<notin> set (keys opts) \<longrightarrow>
         (\<exists>e. construct cls opts = Inl e)"
  let ?cls = "(BaseStatement :: (nat, unit, nat dict) statement_class)
                \<lparr>cls_name := ''Unique'', expected_parameters := [''at_least_%'']\<rparr>"
  have "''at_least_%'' \<in> set (expected_parameters ?cls) \<and>
        ''at_least_%'' \<notin> set (keys [(''type'', 0::nat)])"
    by (simp add: keys_def)
  with claim have "\<exists>e. construct ?cls [(''type'', 0)] = Inl e"
    by blast
  moreover have "construct ?cls [(''type'', 0)] = Inr \<lparr>options = Some [(''type'', 0)]\<rparr>"
    by (simp add: construct_eq validate_options_def keys_def Let_def
          BaseStatement_expected_parameters_def)
  ultimately show False by simp
qed

subsection \<open>Evaluating twice\<close>

lemma call_as_call_assigning:
  "call cls self df =
     call_assigning (\<lambda>self df. (report cls self df, self))
       (\<lambda>self report. (result cls self report, self)) self df"
  by (simp add: call_def call_assigning_def Let_def)





subsection \<open>Construction and the stored options\<close>

text \<open>
  C8. \<^verbatim>\<open>__init__\<close> is atomic in the \<^verbatim>\<open>options\<close> attribute: when validation raises, the
  object is left as it was (a new object has no \<^verbatim>\<open>options\<close>); when validation passes,
  \<^verbatim>\<open>options\<close> is the mapping passed in, unchanged.
\<close>

theorem init_assigns_options_atomically:
  "(\<forall>e. fst (init cls self opts) = Inl e \<longrightarrow> snd (init cls self opts) = self) \<and>
   (\<forall>e. construct cls opts = Inl e \<longrightarrow> options (snd (init cls new_instance opts)) = None) \<and>
   (fst (init cls self opts) = Inr () \<longrightarrow> options (snd (init cls self opts)) = Some opts) \<and>
   (\<forall>made. construct cls opts = Inr made \<longrightarrow> options made = Some opts)"
  by (auto simp: init_def construct_def new_instance_def split: sum.splits)

text \<open>A base statement with a stray key, and one with recognised keys only.\<close>

theorem init_assigns_options_atomically_witness:
  "construct (BaseStatement :: (nat, unit, nat dict) statement_class)
     [(''type'', 0), (''colour'', 1)] =
     Inl (ValueError
            [Lit ''Invalid parameters passed to '', Name ''BaseStatement'',
             Lit '' statement: '', ListRepr [''colour''],
             Lit (CHR 0x0A # ''The valid parameters are: ''),
             ListRepr [''type'', ''severity'', ''location'']]) \<and>
   options (snd (init (BaseStatement :: (nat, unit, nat dict) statement_class) new_instance
                   [(''type'', 0), (''colour'', 1)])) = None \<and>
   construct (BaseStatement :: (nat, unit, nat dict) statement_class)
     [(''type'', 0), (''severity'', 3)] =
     Inr \<lparr>options = Some [(''type'', 0), (''severity'', 3)]\<rparr> \<and>
   options \<lparr>options = Some [(''type'', 0::nat), (''severity'', 3)]\<rparr> =
     Some [(''type'', 0), (''severity'', 3)]"
proof -
  let ?cls = "BaseStatement :: (nat, unit, nat dict) statement_class"
  have bad: "construct ?cls [(''type'', 0), (''colour'', 1)] =
     Inl (ValueError
            [Lit ''Invalid parameters passed to '', Name ''BaseStatement'',
             Lit '' statement: '', ListRepr [''colour''],
             Lit (CHR 0x0A # ''The valid parameters are: ''),
             ListRepr [''type'', ''severity'', ''location'']])"
    by (simp add: construct_eq validate_options_def keys_def Let_def BaseStatement_def
          BaseStatement_expected_parameters_def)
  have good: "construct ?cls [(''type'', 0), (''severity'', 3)] =
     Inr \<lparr>options = Some [(''type'', 0), (''severity'', 3)]\<rparr>"
    by (simp add: construct_eq validate_options_def keys_def Let_def BaseStatement_def
          BaseStatement_expected_parameters_def)
  from init_assigns_options_atomically [of ?cls new_instance "[(''type'', 0), (''colour'', 1)]"] bad
  have unset: "options (snd (init ?cls new_instance [(''type'', 0), (''colour'', 1)])) = None"
    by blast
  from init_assigns_options_atomically [of ?cls new_instance "[(''type'', 0), (''severity'', 3)]"] good
  have stored: "options \<lparr>options = Some [(''type'', 0::nat), (''severity'', 3)]\<rparr> =
     Some [(''type'', 0), (''severity'', 3)]"
    by blast
  from bad unset good stored show ?thesis by blast
qed

subsection \<open>The bare base statement\<close>

text \<open>
  C9. The base statement passes trivially: its \<^verbatim>\<open>report\<close> is the empty mapping on
  every slice, its \<^verbatim>\<open>result\<close> is true on every report, and evaluating it gives
  \<^verbatim>\<open>{'detail': {}, 'result': True}\<close>.
\<close>

theorem base_statement_trivially_passes:
  "report BaseStatement self df = [] \<and>
   result BaseStatement self rep = True \<and>
   fst (call BaseStatement self df) = [(''detail'', Detail []), (''result'', Verdict True)]"
  by (simp add: call_final_report) (simp add: BaseStatement_def)

section \<open>Properties of the pipeline operator\<close>

text \<open>
  C10. \<^verbatim>\<open>save_json\<close> has no effect: the operator built with one value of it is the
  operator built with any other, and the operator has no field for it. \<^verbatim>\<open>execute\<close>
  returns the path the operator was built with: whatever it returns is that path, and
  it does return it whenever the reader and the validation return.
\<close>

theorem execute_returns_path_and_ignores_save_json:
  "DeirokayOperator_init super_init path opts_json assertions_json save_json kwargs =
     DeirokayOperator_init super_init path opts_json assertions_json save_json' kwargs \<and>
   (DeirokayOperator_init super_init path opts_json assertions_json save_json kwargs = Inr self \<longrightarrow>
      path_to_file self = path \<and>
      (\<forall>returned. execute data_reader validate self context = Inr returned \<longrightarrow> returned = path) \<and>
      (\<forall>df checked. data_reader path opts_json = Inr df \<and> validate df assertions_json = Inr checked \<longrightarrow>
         execute data_reader validate self context = Inr path))"
  by (auto simp: DeirokayOperator_init_def execute_def split: sum.splits)

text \<open>An operator built with and without \<^verbatim>\<open>save_json\<close>, and run with a reader and a check that return.\<close>

theorem execute_returns_path_and_ignores_save_json_witness:
  "DeirokayOperator_init (\<lambda>kw :: string dict. Inr kw :: unit + string dict)
       ''sample.csv'' ''options.json'' ''assertions.json'' (Some ''log.json'')
       [(''task_id'', ''check'')] =
     Inr \<lparr>base_operator = [(''task_id'', ''check'')], path_to_file = ''sample.csv'',
          deirokay_options_json = ''options.json'',
          deirokay_assertions_json = ''assertions.json''\<rparr> \<and>
   DeirokayOperator_init (\<lambda>kw :: string dict. Inr kw :: unit + string dict)
       ''sample.csv'' ''options.json'' ''assertions.json'' None
       [(''task_id'', ''check'')] =
     Inr \<lparr>base_operator = [(''task_id'', ''check'')], path_to_file = ''sample.csv'',
          deirokay_options_json = ''options.json'',
          deirokay_assertions_json = ''assertions.json''\<rparr> \<and>
   execute (\<lambda>p j. Inr [length p, length j] :: unit + nat list) (\<lambda>df j. Inr True :: unit + bool)
       \<lparr>base_operator = [(''task_id'', ''check'')], path_to_file = ''sample.csv'',
        deirokay_options_json = ''options.json'',
        deirokay_assertions_json = ''assertions.json''\<rparr> () = Inr ''sample.csv''"
proof -
  let ?super = "\<lambda>kw :: string dict. Inr kw :: unit + string dict"
  let ?self = "\<lparr>base_operator = [(''task_id'', ''check'')], path_to_file = ''sample.csv'',
        deirokay_options_json = ''options.json'',
        deirokay_assertions_json = ''assertions.json''\<rparr>"
  let ?reader = "\<lambda>p j. Inr [length p, length j] :: unit + nat list"
  let ?validate = "\<lambda>(df :: nat list) (j :: string). Inr True :: unit + bool"
  have made: "DeirokayOperator_init ?super ''sample.csv'' ''options.json'' ''assertions.json''
       (Some ''log.json'') [(''task_id'', ''check'')] = Inr ?self"
    by (simp add: DeirokayOperator_init_def)
  have read: "?reader ''sample.csv'' ''options.json'' = Inr [10, 12] \<and>
      ?validate [10, 12] ''assertions.json'' = Inr True"
    by simp
  note fact = execute_returns_path_and_ignores_save_json
         [of ?super "''sample.csv''" "''options.json''" "''assertions.json''"
             "Some ''log.json''" "[(''task_id'', ''check'')]" None ?self ?reader ?validate "()"]
  from fact made have same: "DeirokayOperator_init ?super ''sample.csv'' ''options.json''
       ''assertions.json'' None [(''task_id'', ''check'')] = Inr ?self"
    by simp
  from fact made read have "execute ?reader ?validate ?self () = Inr ''sample.csv''"
    by blast
  with made same show ?thesis by blast
qed

end
